theory Spec2Isabelle
  imports Main "HOL-Library.Word" "HOL-Library.Sublist"
begin

section \<open>The data-channel observer of MixedReality-WebRTC\<close>

text \<open>
  A shallow embedding of \<^verbatim>\<open>data_channel_observer.cpp\<close>: the helper
  \<^verbatim>\<open>apiStateFromRtcState\<close>, the constructor of \<^verbatim>\<open>DataChannelObserver\<close> and its three
  delivery operations \<^verbatim>\<open>OnStateChange\<close>, \<^verbatim>\<open>OnMessage\<close> and
  \<^verbatim>\<open>OnBufferedAmountChange\<close>.

  The operations are sequential code that talks to two collaborators: the data channel
  of the transport library, which is only asked for values, and the callbacks of the
  application, which are only called. Both kinds of interaction are recorded, in program
  order, in a trace that is part of the state passed through every operation. Several
  threads that call the operations of one observer are modelled by the schedules of
  their events.
\<close>

subsection \<open>Machine types\<close>

type_synonym int32 = "32 word"      \<comment> \<open>C++ \<^verbatim>\<open>int\<close>\<close>
type_synonym uint64_t = "64 word"
type_synonym uint8_t = "8 word"
type_synonym addr = nat             \<comment> \<open>the value of a pointer to bytes\<close>
type_synonym size_t = nat           \<comment> \<open>a byte count; no arithmetic is done on it\<close>

subsection \<open>The two state enumerations\<close>

text \<open>
  A value of a C++ enumeration is a value of its underlying integer type, and two
  enumerators with the same number are the same value. Both enumerations are declared
  outside this file (\<^verbatim>\<open>RtcDataState\<close> by the transport library, \<^verbatim>\<open>ApiDataState\<close> by the
  public API header), so the numbers of their four enumerators are parameters of the
  model: a record of enumerators for each type. The integer carried by a value is what
  the cast \<^verbatim>\<open>(int)\<close> of the source reads.
\<close>

datatype RtcDataState = RtcDataState (rtc_int: int32)
datatype ApiDataState = ApiDataState (api_int: int32)

record 'e DataStateEnum =
  kConnecting :: 'e
  kOpen :: 'e
  kClosing :: 'e
  kClosed :: 'e

text \<open>
  The four \<^verbatim>\<open>static_assert\<close>s of lines 15 to 19, in source order. A program whose
  enumerations violate one of them does not compile, so they are the condition under
  which the rest of the file exists at all.
\<close>

definition static_asserts ::
  "RtcDataState DataStateEnum \<Rightarrow> ApiDataState DataStateEnum \<Rightarrow> bool" where
  "static_asserts rtc api =
     (rtc_int (kOpen rtc) = api_int (kOpen api) \<and>
      rtc_int (kConnecting rtc) = api_int (kConnecting api) \<and>
      rtc_int (kClosing rtc) = api_int (kClosing api) \<and>
      rtc_int (kClosed rtc) = api_int (kClosed api))"

text \<open>Line 20: \<^verbatim>\<open>return (ApiDataState)rtcState;\<close> keeps the number and changes the type.\<close>

fun apiStateFromRtcState :: "RtcDataState \<Rightarrow> ApiDataState" where
  "apiStateFromRtcState (RtcDataState v) = ApiDataState v"

text \<open>
  The explicit mapping table that the specification contrasts the cast with: each named
  internal state is sent to the public state of the same name, and a value that is none
  of the four enumerators has no entry.
\<close>

definition state_mapping_table ::
  "RtcDataState DataStateEnum \<Rightarrow> ApiDataState DataStateEnum \<Rightarrow> RtcDataState \<Rightarrow> ApiDataState option" where
  "state_mapping_table rtc api s =
     (if s = kConnecting rtc then Some (kConnecting api)
      else if s = kOpen rtc then Some (kOpen api)
      else if s = kClosing rtc then Some (kClosing api)
      else if s = kClosed rtc then Some (kClosed api)
      else None)"

definition variants :: "'e DataStateEnum \<Rightarrow> 'e list" where
  "variants e = [kConnecting e, kOpen e, kClosing e, kClosed e]"

text \<open>
  A concrete pair of declarations that passes the assertions: in both enumerations the
  enumerators are numbered from 0 in the order Connecting, Open, Closing, Closed.
\<close>

definition an_rtc_numbering :: "RtcDataState DataStateEnum" where
  "an_rtc_numbering =
     \<lparr>kConnecting = RtcDataState 0, kOpen = RtcDataState 1,
      kClosing = RtcDataState 2, kClosed = RtcDataState 3\<rparr>"

definition an_api_numbering :: "ApiDataState DataStateEnum" where
  "an_api_numbering =
     \<lparr>kConnecting = ApiDataState 0, kOpen = ApiDataState 1,
      kClosing = ApiDataState 2, kClosed = ApiDataState 3\<rparr>"

subsection \<open>The collaborators: channel, message buffer, callbacks\<close>

text \<open>
  The data channel belongs to the transport library. The observer reaches it through the
  reference \<^verbatim>\<open>data_channel_\<close> and uses three of its queries: \<^verbatim>\<open>state()\<close>, \<^verbatim>\<open>id()\<close> and
  \<^verbatim>\<open>buffered_amount()\<close>. A channel is the record of what these three return; the store
  \<open>channels\<close> of the world maps a reference to the channel it refers to. The reference
  handed to the constructor is taken to refer to a live channel, as the specification
  says (an already-created data-channel handle).
\<close>

type_synonym channel_ref = nat

record DataChannel =
  chan_state :: RtcDataState
  chan_id :: int32
  chan_buffered_amount :: uint64_t

text \<open>
  A delivered message: \<^verbatim>\<open>buffer.data.data()\<close> is the address of the first byte and
  \<^verbatim>\<open>buffer.data.size()\<close> the number of bytes; the bytes themselves are in memory.
\<close>

record CopyOnWriteBuffer =
  cow_data :: addr
  cow_size :: size_t

record DataBuffer =
  data :: CopyOnWriteBuffer
  binary :: bool

text \<open>
  Modelled from the spec: the callback type of the three slots, which the header
  declares and the source only uses. A slot is empty or holds a callable; a slot that
  was never set is empty; the test \<^verbatim>\<open>!slot\<close> is true exactly of the empty slot. A
  callable is named by a number.
\<close>

datatype callback = Callback nat

text \<open>
  What an operation does to the outside, in program order: taking and releasing the
  observer's mutex, asking the channel, calling a callback with its arguments.
\<close>

datatype event =
    Acquire
  | Release
  | Query_state channel_ref
  | Query_id channel_ref
  | Query_buffered_amount channel_ref
  | Call_state callback int32 int32
  | Call_message callback addr size_t
  | Call_buffering callback uint64_t uint64_t uint64_t

fun is_query :: "event \<Rightarrow> bool" where
  "is_query (Query_state c) = True"
| "is_query (Query_id c) = True"
| "is_query (Query_buffered_amount c) = True"
| "is_query e = False"

fun is_call :: "event \<Rightarrow> bool" where
  "is_call (Call_state cb s i) = True"
| "is_call (Call_message cb p n) = True"
| "is_call (Call_buffering cb a b c) = True"
| "is_call e = False"

record world =
  channels :: "channel_ref \<Rightarrow> DataChannel"
  memory :: "addr \<Rightarrow> uint8_t"
  trace :: "event list"

definition emit :: "event \<Rightarrow> world \<Rightarrow> world" where
  "emit e w = w\<lparr>trace := trace w @ [e]\<rparr>"

text \<open>The events that were added to the trace between two worlds.\<close>

definition delivered :: "world \<Rightarrow> world \<Rightarrow> event list" where
  "delivered w w' = drop (length (trace w)) (trace w')"

text \<open>The \<open>n\<close> bytes that a pointer \<open>p\<close> points to.\<close>

definition bytes_at :: "world \<Rightarrow> addr \<Rightarrow> size_t \<Rightarrow> uint8_t list" where
  "bytes_at w p n = map (memory w) [p ..< p + n]"

definition buffer_bytes :: "world \<Rightarrow> DataBuffer \<Rightarrow> uint8_t list" where
  "buffer_bytes w buffer = bytes_at w (cow_data (data buffer)) (cow_size (data buffer))"

subsection \<open>Outcomes, \<^verbatim>\<open>noexcept\<close> and \<^verbatim>\<open>lock_guard\<close>\<close>

text \<open>
  A call returns, leaves with an exception, or ends the program; \<open>Terminated\<close> also
  stands for a call that never comes back. What a callback does when it is called is
  the application's business and a parameter of the model: a function from the call to
  its outcome.
\<close>

datatype outcome = Returned | Raised | Terminated

type_synonym application = "event \<Rightarrow> outcome"

text \<open>
  Every function of the file is declared \<^verbatim>\<open>noexcept\<close>: an exception that reaches the
  boundary of the function ends the program (\<^verbatim>\<open>std::terminate\<close>) and is not passed on.
\<close>

fun noexcept :: "outcome \<Rightarrow> outcome" where
  "noexcept Raised = Terminated"
| "noexcept r = r"

text \<open>
  \<^verbatim>\<open>std::lock_guard<std::mutex> lock(mutex);\<close> takes the mutex where it is declared and
  releases it when the scope is left by a return, be it the early one or the one at the
  end of the body. When the body does not return, the program ends at the
  \<^verbatim>\<open>noexcept\<close> boundary of the same function: the trace stops where the body stopped.
  (Whether destructors still run before \<^verbatim>\<open>std::terminate\<close> is left to the
  implementation by the language; nothing is recorded for it.)
\<close>

definition lock_guard :: "(world \<Rightarrow> outcome \<times> world) \<Rightarrow> world \<Rightarrow> outcome \<times> world" where
  "lock_guard body w =
     (case body (emit Acquire w) of
        (Returned, w') \<Rightarrow> (Returned, emit Release w')
      | (r, w') \<Rightarrow> (r, w'))"

text \<open>The three queries of the channel and the call of a callback.\<close>

definition DataChannel_state :: "channel_ref \<Rightarrow> world \<Rightarrow> RtcDataState \<times> world" where
  "DataChannel_state c w = (chan_state (channels w c), emit (Query_state c) w)"

definition DataChannel_id :: "channel_ref \<Rightarrow> world \<Rightarrow> int32 \<times> world" where
  "DataChannel_id c w = (chan_id (channels w c), emit (Query_id c) w)"

definition DataChannel_buffered_amount :: "channel_ref \<Rightarrow> world \<Rightarrow> uint64_t \<times> world" where
  "DataChannel_buffered_amount c w =
     (chan_buffered_amount (channels w c), emit (Query_buffered_amount c) w)"

definition invoke :: "application \<Rightarrow> event \<Rightarrow> world \<Rightarrow> outcome \<times> world" where
  "invoke app call w = (app call, emit call w)"

text \<open>The end of the trace of an operation whose callback had the outcome \<open>r\<close>.\<close>

fun released :: "outcome \<Rightarrow> event list" where
  "released Returned = [Release]"
| "released r = []"

subsection \<open>The observer\<close>

text \<open>
  The members of the class, under the names of the source without the trailing
  underscore, which an Isabelle name cannot end in. The mutex, the fifth member, has no
  field: it appears as the \<open>Acquire\<close> and \<open>Release\<close> events of the operations.
\<close>

record DataChannelObserver =
  data_channel :: channel_ref
  state_callback :: "callback option"
  message_callback :: "callback option"
  buffering_callback :: "callback option"

text \<open>
  Lines 28 to 30. The constructor moves the reference into \<^verbatim>\<open>data_channel_\<close>, its only
  member initialiser; the three slots are default-initialised, that is, empty.
\<close>

definition DataChannelObserver_ctor ::
  "channel_ref \<Rightarrow> world \<Rightarrow> outcome \<times> DataChannelObserver \<times> world" where
  "DataChannelObserver_ctor channel w =
     (noexcept Returned,
      \<lparr>data_channel = channel, state_callback = None,
       message_callback = None, buffering_callback = None\<rparr>,
      w)"

text \<open>Lines 32 to 38.\<close>

definition OnStateChange ::
  "application \<Rightarrow> DataChannelObserver \<Rightarrow> world \<Rightarrow> outcome \<times> DataChannelObserver \<times> world" where
  "OnStateChange app this w =
     (let (r, w') =
        lock_guard (\<lambda>w.
          case state_callback this of
            None \<Rightarrow> (Returned, w)
          | Some cb \<Rightarrow>
              (let (rtcState, w1) = DataChannel_state (data_channel this) w;
                   apiState = apiStateFromRtcState rtcState;
                   (channel_id, w2) = DataChannel_id (data_channel this) w1
               in invoke app (Call_state cb (api_int apiState) channel_id) w2)) w
      in (noexcept r, this, w'))"

text \<open>Lines 40 to 45.\<close>

definition OnMessage ::
  "application \<Rightarrow> DataChannelObserver \<Rightarrow> DataBuffer \<Rightarrow> world
     \<Rightarrow> outcome \<times> DataChannelObserver \<times> world" where
  "OnMessage app this buffer w =
     (let (r, w') =
        lock_guard (\<lambda>w.
          case message_callback this of
            None \<Rightarrow> (Returned, w)
          | Some cb \<Rightarrow>
              invoke app
                (Call_message cb (cow_data (data buffer)) (cow_size (data buffer)))
                w) w
      in (noexcept r, this, w'))"

text \<open>Lines 47 to 55.\<close>

definition max_capacity :: uint64_t where
  "max_capacity = 0x1000000"

definition OnBufferedAmountChange ::
  "application \<Rightarrow> DataChannelObserver \<Rightarrow> uint64_t \<Rightarrow> world
     \<Rightarrow> outcome \<times> DataChannelObserver \<times> world" where
  "OnBufferedAmountChange app this previous_amount w =
     (let (r, w') =
        lock_guard (\<lambda>w.
          case buffering_callback this of
            None \<Rightarrow> (Returned, w)
          | Some cb \<Rightarrow>
              (let (current_amount, w1) = DataChannel_buffered_amount (data_channel this) w
               in invoke app
                    (Call_buffering cb previous_amount current_amount max_capacity)
                    w1)) w
      in (noexcept r, this, w'))"

subsection \<open>Registration\<close>




subsection \<open>Threads\<close>







text \<open>
  A schedule is the order in which the events of all threads on one observer happen,
  each event with the thread that performs it; \<open>proj t s\<close> are the events of thread \<open>t\<close>.
\<close>

type_synonym thread = nat
type_synonym schedule = "(thread \<times> event) list"

definition proj :: "thread \<Rightarrow> schedule \<Rightarrow> event list" where
  "proj t s = map snd (filter (\<lambda>x. fst x = t) s)"

text \<open>
  \<^verbatim>\<open>std::mutex\<close>: a thread gets the mutex only when no thread holds it, and the holder's
  release frees it. \<open>mutex_ok h s\<close> says that the schedule \<open>s\<close> is one that the mutex
  allows when \<open>h\<close> is the holder at its start. It constrains nothing but \<open>Acquire\<close>.
\<close>

fun mutex_ok :: "thread option \<Rightarrow> schedule \<Rightarrow> bool" where
  "mutex_ok h [] = True"
| "mutex_ok h ((t, Acquire) # s) = (h = None \<and> mutex_ok (Some t) s)"
| "mutex_ok h ((t, Release) # s) = mutex_ok (if h = Some t then None else h) s"
| "mutex_ok h ((t, e) # s) = mutex_ok h s"



text \<open>
  \<open>exclusive h s\<close>: with \<open>h\<close> the thread in flight at the start, the schedule \<open>s\<close> never
  lets a thread begin an invocation while a thread is in flight, and every other event
  is an event of the thread in flight.
\<close>

fun exclusive :: "thread option \<Rightarrow> schedule \<Rightarrow> bool" where
  "exclusive h [] = True"
| "exclusive h ((t, Acquire) # s) = (h = None \<and> exclusive (Some t) s)"
| "exclusive h ((t, Release) # s) = (h = Some t \<and> exclusive None s)"
| "exclusive h ((t, e) # s) = (h = Some t \<and> exclusive h s)"



subsection \<open>Concrete inputs\<close>

definition a_channel :: DataChannel where
  "a_channel = \<lparr>chan_state = RtcDataState 1, chan_id = 7, chan_buffered_amount = 250\<rparr>"

definition a_world :: world where
  "a_world =
     \<lparr>channels = (\<lambda>c. a_channel),
      memory = (\<lambda>a. if a = 4096 then 1 else if a = 4097 then 2 else if a = 4098 then 3 else 0),
      trace = []\<rparr>"

definition a_buffer :: DataBuffer where
  "a_buffer = \<lparr>data = \<lparr>cow_data = 4096, cow_size = 3\<rparr>, binary = True\<rparr>"

definition a_listening_observer :: DataChannelObserver where
  "a_listening_observer =
     \<lparr>data_channel = 5, state_callback = Some (Callback 1),
      message_callback = Some (Callback 2), buffering_callback = Some (Callback 3)\<rparr>"

definition a_silent_observer :: DataChannelObserver where
  "a_silent_observer =
     \<lparr>data_channel = 5, state_callback = None,
      message_callback = None, buffering_callback = None\<rparr>"

definition a_quiet_application :: application where
  "a_quiet_application = (\<lambda>call. Returned)"

definition a_throwing_application :: application where
  "a_throwing_application = (\<lambda>call. Raised)"


definition an_overlapping_schedule :: schedule where
  "an_overlapping_schedule =
     [(1, Acquire), (1, Query_state 5), (2, Acquire), (2, Release), (1, Query_id 5),
      (1, Call_state (Callback 1) 1 7), (1, Release)]"


section \<open>Properties\<close>

subsection \<open>The state translation\<close>

lemma api_int_cast: "api_int (apiStateFromRtcState s) = rtc_int s"
  by (cases s) simp

lemma cast_to_api: "rtc_int s = api_int a \<Longrightarrow> apiStateFromRtcState s = a"
  by (cases s, cases a) simp

text \<open>
  Claim C1. When the four static assertions hold, that is, when each public state has
  the number of the internal state of the same name, the cast sends each of the four
  internal states to the public state of the same name, and on each of the four it
  agrees with the explicit name-for-name table.
\<close>

theorem apiStateFromRtcState_name_for_name:
  assumes "static_asserts rtc api"
  shows "apiStateFromRtcState (kConnecting rtc) = kConnecting api \<and>
         apiStateFromRtcState (kOpen rtc) = kOpen api \<and>
         apiStateFromRtcState (kClosing rtc) = kClosing api \<and>
         apiStateFromRtcState (kClosed rtc) = kClosed api \<and>
         (\<forall>s \<in> set (variants rtc).
            state_mapping_table rtc api s = Some (apiStateFromRtcState s))"
proof -
  from assms have c: "apiStateFromRtcState (kConnecting rtc) = kConnecting api"
    and o: "apiStateFromRtcState (kOpen rtc) = kOpen api"
    and g: "apiStateFromRtcState (kClosing rtc) = kClosing api"
    and d: "apiStateFromRtcState (kClosed rtc) = kClosed api"
    by (simp_all add: static_asserts_def cast_to_api)
  have "state_mapping_table rtc api s = Some (apiStateFromRtcState s)"
    if "s \<in> set (variants rtc)" for s
    using that c o g d by (auto simp: variants_def state_mapping_table_def)
  with c o g d show ?thesis by blast
qed

theorem apiStateFromRtcState_name_for_name_witness:
  "static_asserts an_rtc_numbering an_api_numbering \<and>
   apiStateFromRtcState (RtcDataState 0) = ApiDataState 0 \<and>
   apiStateFromRtcState (RtcDataState 1) = ApiDataState 1 \<and>
   apiStateFromRtcState (RtcDataState 2) = ApiDataState 2 \<and>
   apiStateFromRtcState (RtcDataState 3) = ApiDataState 3 \<and>
   state_mapping_table an_rtc_numbering an_api_numbering (RtcDataState 2)
     = Some (ApiDataState 2)"
proof -
  have h: "static_asserts an_rtc_numbering an_api_numbering"
    by (simp add: static_asserts_def an_rtc_numbering_def an_api_numbering_def)
  have m: "RtcDataState 2 \<in> set (variants an_rtc_numbering)"
    by (simp add: variants_def an_rtc_numbering_def)
  from apiStateFromRtcState_name_for_name [OF h] m h show ?thesis
    by (simp add: an_rtc_numbering_def an_api_numbering_def)
qed

subsection \<open>What each operation does, in full\<close>

lemma delivered_append: "trace w' = trace w @ evs \<Longrightarrow> delivered w w' = evs"
  by (simp add: delivered_def)

lemma OnStateChange_empty:
  "state_callback this = None \<Longrightarrow>
   OnStateChange app this w = (Returned, this, w\<lparr>trace := trace w @ [Acquire, Release]\<rparr>)"
  by (simp add: OnStateChange_def lock_guard_def emit_def)

lemma OnStateChange_set:
  "state_callback this = Some cb \<Longrightarrow>
   OnStateChange app this w =
     (noexcept
        (app (Call_state cb
                (api_int (apiStateFromRtcState (chan_state (channels w (data_channel this)))))
                (chan_id (channels w (data_channel this))))),
      this,
      w\<lparr>trace := trace w @
         [Acquire, Query_state (data_channel this), Query_id (data_channel this),
          Call_state cb
            (api_int (apiStateFromRtcState (chan_state (channels w (data_channel this)))))
            (chan_id (channels w (data_channel this)))] @
         released
           (app (Call_state cb
                (api_int (apiStateFromRtcState (chan_state (channels w (data_channel this)))))
                (chan_id (channels w (data_channel this)))))\<rparr>)"
  by (simp add: OnStateChange_def lock_guard_def emit_def DataChannel_state_def
      DataChannel_id_def invoke_def Let_def split: outcome.split)

lemma OnMessage_empty:
  "message_callback this = None \<Longrightarrow>
   OnMessage app this buffer w =
     (Returned, this, w\<lparr>trace := trace w @ [Acquire, Release]\<rparr>)"
  by (simp add: OnMessage_def lock_guard_def emit_def)

lemma OnMessage_set:
  "message_callback this = Some cb \<Longrightarrow>
   OnMessage app this buffer w =
     (noexcept (app (Call_message cb (cow_data (data buffer)) (cow_size (data buffer)))),
      this,
      w\<lparr>trace := trace w @
         [Acquire, Call_message cb (cow_data (data buffer)) (cow_size (data buffer))] @
         released
           (app (Call_message cb (cow_data (data buffer)) (cow_size (data buffer))))\<rparr>)"
  by (simp add: OnMessage_def lock_guard_def emit_def invoke_def split: outcome.split)

lemma OnBufferedAmountChange_empty:
  "buffering_callback this = None \<Longrightarrow>
   OnBufferedAmountChange app this previous_amount w =
     (Returned, this, w\<lparr>trace := trace w @ [Acquire, Release]\<rparr>)"
  by (simp add: OnBufferedAmountChange_def lock_guard_def emit_def)

lemma OnBufferedAmountChange_set:
  "buffering_callback this = Some cb \<Longrightarrow>
   OnBufferedAmountChange app this previous_amount w =
     (noexcept
        (app (Call_buffering cb previous_amount
                (chan_buffered_amount (channels w (data_channel this))) 16777216)),
      this,
      w\<lparr>trace := trace w @
         [Acquire, Query_buffered_amount (data_channel this),
          Call_buffering cb previous_amount
            (chan_buffered_amount (channels w (data_channel this))) 16777216] @
         released
           (app (Call_buffering cb previous_amount
                (chan_buffered_amount (channels w (data_channel this))) 16777216))\<rparr>)"
  by (simp add: OnBufferedAmountChange_def lock_guard_def emit_def invoke_def
      DataChannel_buffered_amount_def max_capacity_def split: outcome.split)

lemma noexcept_not_Raised: "noexcept r \<noteq> Raised"
  by (cases r) simp_all

lemma released_noexcept: "released (noexcept r) = released r"
  by (cases r) simp_all

lemma filter_released:
  "filter is_query (released r) = []" "filter is_call (released r) = []"
  by (cases r; simp)+

lemma bytes_at_trace: "bytes_at (w\<lparr>trace := t\<rparr>) p n = bytes_at w p n"
  by (simp add: bytes_at_def)

subsection \<open>State changes\<close>

text \<open>
  Claim C2. With a state callback registered, \<open>OnStateChange\<close> takes the mutex, asks the
  channel for its state and then for its id, and calls the state callback once, with the
  translated state and that id; this call is the only call of a callback, and the mutex
  is released when it returns. When the channel reports the state Open and the id 7,
  the callback receives the public Open and 7.
\<close>

theorem OnStateChange_registered:
  assumes "state_callback this = Some cb"
    and "data_channel this = c"
    and "chan_state (channels w c) = s"
    and "chan_id (channels w c) = i"
    and "OnStateChange app this w = (r, this', w')"
  shows "trace w' = trace w @
           [Acquire, Query_state c, Query_id c,
            Call_state cb (api_int (apiStateFromRtcState s)) i] @ released r \<and>
         filter is_query (delivered w w') = [Query_state c, Query_id c] \<and>
         filter is_call (delivered w w') =
           [Call_state cb (api_int (apiStateFromRtcState s)) i] \<and>
         (static_asserts rtc api \<longrightarrow> s = kOpen rtc \<longrightarrow> i = 7 \<longrightarrow>
            filter is_call (delivered w w') = [Call_state cb (api_int (kOpen api)) 7])"
proof -
  let ?call = "Call_state cb (api_int (apiStateFromRtcState s)) i"
  from assms OnStateChange_set [of this cb app w]
  have t: "trace w' =
      trace w @ ([Acquire, Query_state c, Query_id c, ?call] @ released r)"
    by (auto simp: released_noexcept)
  then have d: "delivered w w' = [Acquire, Query_state c, Query_id c, ?call] @ released r"
    by (rule delivered_append)
  have o: "api_int (apiStateFromRtcState s) = api_int (kOpen api)"
    if "static_asserts rtc api" "s = kOpen rtc"
    using that by (simp add: static_asserts_def api_int_cast)
  from t d o show ?thesis by (simp add: filter_released)
qed

theorem OnStateChange_registered_witness:
  "state_callback a_listening_observer = Some (Callback 1) \<and>
   static_asserts an_rtc_numbering an_api_numbering \<and>
   chan_state (channels a_world 5) = kOpen an_rtc_numbering \<and>
   OnStateChange a_quiet_application a_listening_observer a_world =
     (Returned, a_listening_observer,
      a_world\<lparr>trace :=
        [Acquire, Query_state 5, Query_id 5, Call_state (Callback 1) 1 7, Release]\<rparr>) \<and>
   filter is_call
     (delivered a_world
        (snd (snd (OnStateChange a_quiet_application a_listening_observer a_world)))) =
     [Call_state (Callback 1) (api_int (kOpen an_api_numbering)) 7]"
proof -
  have h1: "state_callback a_listening_observer = Some (Callback 1)"
    and h2: "data_channel a_listening_observer = 5"
    and h3: "chan_state (channels a_world 5) = RtcDataState 1"
    and h4: "chan_id (channels a_world 5) = 7"
    and sa: "static_asserts an_rtc_numbering an_api_numbering"
    and op: "kOpen an_rtc_numbering = RtcDataState 1"
    by (simp_all add: a_listening_observer_def a_world_def a_channel_def static_asserts_def
        an_rtc_numbering_def an_api_numbering_def)
  have h5: "OnStateChange a_quiet_application a_listening_observer a_world =
     (Returned, a_listening_observer,
      a_world\<lparr>trace :=
        [Acquire, Query_state 5, Query_id 5, Call_state (Callback 1) 1 7, Release]\<rparr>)"
    by (simp add: OnStateChange_def lock_guard_def emit_def DataChannel_state_def
        DataChannel_id_def invoke_def Let_def a_listening_observer_def a_world_def
        a_channel_def a_quiet_application_def)
  note particular = OnStateChange_registered [OF h1 h2 h3 h4 h5,
      of an_rtc_numbering an_api_numbering,
      THEN conjunct2, THEN conjunct2, THEN conjunct2, rule_format]
  have c: "filter is_call
     (delivered a_world
        (a_world\<lparr>trace :=
        [Acquire, Query_state 5, Query_id 5, Call_state (Callback 1) 1 7, Release]\<rparr>)) =
     [Call_state (Callback 1) (api_int (kOpen an_api_numbering)) 7]"
    by (rule particular [OF sa op [symmetric] refl])
  from h1 sa h3 op h5 c show ?thesis by (simp only: snd_conv simp_thms)
qed

subsection \<open>Messages\<close>

text \<open>
  Claim C3. With a message callback registered, \<open>OnMessage\<close> calls the message callback
  once, with the address of the buffer's bytes and the buffer's length, and calls no
  other callback; the pointer still points to the bytes of the buffer. For a buffer that
  holds the bytes 1, 2, 3 the callback receives a pointer to these three bytes and the
  length 3.
\<close>

theorem OnMessage_registered:
  assumes "message_callback this = Some cb"
    and "cow_data (data buffer) = p"
    and "cow_size (data buffer) = n"
    and "OnMessage app this buffer w = (r, this', w')"
  shows "trace w' = trace w @ [Acquire, Call_message cb p n] @ released r \<and>
         filter is_call (delivered w w') = [Call_message cb p n] \<and>
         bytes_at w' p n = buffer_bytes w buffer \<and>
         (buffer_bytes w buffer = [1, 2, 3] \<longrightarrow>
            filter is_call (delivered w w') = [Call_message cb p 3] \<and>
            bytes_at w' p 3 = [1, 2, 3])"
proof -
  from assms OnMessage_set [of this cb app buffer w]
  have w': "w' = w\<lparr>trace := trace w @ ([Acquire, Call_message cb p n] @ released r)\<rparr>"
    by (auto simp: released_noexcept)
  then have t: "trace w' = trace w @ ([Acquire, Call_message cb p n] @ released r)"
    by simp
  then have d: "delivered w w' = [Acquire, Call_message cb p n] @ released r"
    by (rule delivered_append)
  from w' assms(2,3) have b: "bytes_at w' p n = buffer_bytes w buffer"
    by (simp add: buffer_bytes_def bytes_at_trace)
  have n: "n = 3" if "buffer_bytes w buffer = [1, 2, 3]"
  proof -
    from that have "length (buffer_bytes w buffer) = 3" by simp
    with assms(3) show ?thesis by (simp add: buffer_bytes_def bytes_at_def)
  qed
  from t d b n show ?thesis by (auto simp: filter_released)
qed

theorem OnMessage_registered_witness:
  "message_callback a_listening_observer = Some (Callback 2) \<and>
   buffer_bytes a_world a_buffer = [1, 2, 3] \<and>
   OnMessage a_quiet_application a_listening_observer a_buffer a_world =
     (Returned, a_listening_observer,
      a_world\<lparr>trace := [Acquire, Call_message (Callback 2) 4096 3, Release]\<rparr>) \<and>
   bytes_at
     (a_world\<lparr>trace := [Acquire, Call_message (Callback 2) 4096 3, Release]\<rparr>) 4096 3 =
     [1, 2, 3]"
proof -
  have h1: "message_callback a_listening_observer = Some (Callback 2)"
    and h2: "cow_data (data a_buffer) = 4096"
    and h3: "cow_size (data a_buffer) = 3"
    by (simp_all add: a_listening_observer_def a_buffer_def)
  have h4: "OnMessage a_quiet_application a_listening_observer a_buffer a_world =
     (Returned, a_listening_observer,
      a_world\<lparr>trace := [Acquire, Call_message (Callback 2) 4096 3, Release]\<rparr>)"
    by (simp add: OnMessage_def lock_guard_def emit_def invoke_def a_listening_observer_def
        a_world_def a_buffer_def a_quiet_application_def)
  have upt: "[4096 ..< 4099] = [4096, 4097, 4098 :: nat]"
    by (simp add: upt_rec)
  have b: "buffer_bytes a_world a_buffer = [1, 2, 3]"
    by (simp add: buffer_bytes_def bytes_at_def a_buffer_def a_world_def upt)
  note particular = OnMessage_registered [OF h1 h2 h3 h4,
      THEN conjunct2, THEN conjunct2, THEN conjunct2, rule_format, OF b, THEN conjunct2]
  from h1 b h4 particular show ?thesis by (simp only: simp_thms)
qed

subsection \<open>Buffered amount\<close>

text \<open>
  Claim C4. With a buffering callback registered, \<open>OnBufferedAmountChange\<close> asks the
  channel once for the number of bytes it has queued now, and calls the buffering
  callback once with the previous amount it was given, the amount the channel reported,
  and 16777216, whatever the input and the state are. The amount passed is the
  channel's answer; the previous amount plays no part in it.
\<close>

theorem OnBufferedAmountChange_registered:
  assumes "buffering_callback this = Some cb"
    and "data_channel this = c"
    and "chan_buffered_amount (channels w c) = current"
    and "OnBufferedAmountChange app this previous w = (r, this', w')"
  shows "trace w' = trace w @
           [Acquire, Query_buffered_amount c,
            Call_buffering cb previous current 16777216] @ released r \<and>
         filter is_query (delivered w w') = [Query_buffered_amount c] \<and>
         filter is_call (delivered w w') = [Call_buffering cb previous current 16777216] \<and>
         max_capacity = 0x1000000"
proof -
  from assms OnBufferedAmountChange_set [of this cb app previous w]
  have t: "trace w' = trace w @
           ([Acquire, Query_buffered_amount c,
             Call_buffering cb previous current 16777216] @ released r)"
    by (auto simp: released_noexcept)
  then have "delivered w w' =
           [Acquire, Query_buffered_amount c,
            Call_buffering cb previous current 16777216] @ released r"
    by (rule delivered_append)
  with t show ?thesis by (simp add: max_capacity_def filter_released)
qed

theorem OnBufferedAmountChange_registered_witness:
  "buffering_callback a_listening_observer = Some (Callback 3) \<and>
   chan_buffered_amount (channels a_world 5) = 250 \<and>
   OnBufferedAmountChange a_quiet_application a_listening_observer 100 a_world =
     (Returned, a_listening_observer,
      a_world\<lparr>trace :=
        [Acquire, Query_buffered_amount 5,
         Call_buffering (Callback 3) 100 250 16777216, Release]\<rparr>) \<and>
   filter is_call
     (delivered a_world
        (a_world\<lparr>trace :=
          [Acquire, Query_buffered_amount 5,
           Call_buffering (Callback 3) 100 250 16777216, Release]\<rparr>)) =
     [Call_buffering (Callback 3) 100 250 16777216]"
proof -
  have h1: "buffering_callback a_listening_observer = Some (Callback 3)"
    and h2: "data_channel a_listening_observer = 5"
    and h3: "chan_buffered_amount (channels a_world 5) = 250"
    by (simp_all add: a_listening_observer_def a_world_def a_channel_def)
  have h4: "OnBufferedAmountChange a_quiet_application a_listening_observer 100 a_world =
     (Returned, a_listening_observer,
      a_world\<lparr>trace :=
        [Acquire, Query_buffered_amount 5,
         Call_buffering (Callback 3) 100 250 16777216, Release]\<rparr>)"
    by (simp add: OnBufferedAmountChange_def lock_guard_def emit_def invoke_def
        DataChannel_buffered_amount_def max_capacity_def a_listening_observer_def
        a_world_def a_channel_def a_quiet_application_def)
  note calls = OnBufferedAmountChange_registered [OF h1 h2 h3 h4,
      THEN conjunct2, THEN conjunct2, THEN conjunct1]
  from h1 h3 h4 calls show ?thesis by (simp only: simp_thms)
qed

subsection \<open>Deliveries without a listener\<close>

text \<open>
  Claim C5. When the slot of an operation is empty, the operation takes the mutex,
  releases it and returns: it calls no callback, raises nothing, leaves the observer as
  it was and leaves the world as it was but for the two mutex events in the trace, so
  the event is kept nowhere.
\<close>

theorem unregistered_delivery_is_dropped:
  assumes "OnStateChange app this w = (r1, this1, w1)"
    and "OnMessage app this buffer w = (r2, this2, w2)"
    and "OnBufferedAmountChange app this previous w = (r3, this3, w3)"
  shows "(state_callback this = None \<longrightarrow>
            r1 = Returned \<and> this1 = this \<and> filter is_call (delivered w w1) = [] \<and>
            w1 = w\<lparr>trace := trace w @ [Acquire, Release]\<rparr>) \<and>
         (message_callback this = None \<longrightarrow>
            r2 = Returned \<and> this2 = this \<and> filter is_call (delivered w w2) = [] \<and>
            w2 = w\<lparr>trace := trace w @ [Acquire, Release]\<rparr>) \<and>
         (buffering_callback this = None \<longrightarrow>
            r3 = Returned \<and> this3 = this \<and> filter is_call (delivered w w3) = [] \<and>
            w3 = w\<lparr>trace := trace w @ [Acquire, Release]\<rparr>)"
proof -
  have dropped: "r = Returned \<and> this' = this \<and> filter is_call (delivered w w') = [] \<and>
      w' = w\<lparr>trace := trace w @ [Acquire, Release]\<rparr>"
    if "(r, this', w') = (Returned, this, w\<lparr>trace := trace w @ [Acquire, Release]\<rparr>)"
    for r this' w'
    using that by (simp add: delivered_def)
  have "r1 = Returned \<and> this1 = this \<and> filter is_call (delivered w w1) = [] \<and>
      w1 = w\<lparr>trace := trace w @ [Acquire, Release]\<rparr>"
    if "state_callback this = None"
    by (rule dropped) (rule OnStateChange_empty [OF that, of app w, unfolded assms(1)])
  moreover have "r2 = Returned \<and> this2 = this \<and> filter is_call (delivered w w2) = [] \<and>
      w2 = w\<lparr>trace := trace w @ [Acquire, Release]\<rparr>"
    if "message_callback this = None"
    by (rule dropped) (rule OnMessage_empty [OF that, of app buffer w, unfolded assms(2)])
  moreover have "r3 = Returned \<and> this3 = this \<and> filter is_call (delivered w w3) = [] \<and>
      w3 = w\<lparr>trace := trace w @ [Acquire, Release]\<rparr>"
    if "buffering_callback this = None"
    by (rule dropped)
      (rule OnBufferedAmountChange_empty [OF that, of app previous w, unfolded assms(3)])
  ultimately show ?thesis by blast
qed

theorem unregistered_delivery_is_dropped_witness:
  "state_callback a_silent_observer = None \<and>
   message_callback a_silent_observer = None \<and>
   buffering_callback a_silent_observer = None \<and>
   OnStateChange a_throwing_application a_silent_observer a_world =
     (Returned, a_silent_observer, a_world\<lparr>trace := [Acquire, Release]\<rparr>) \<and>
   OnMessage a_throwing_application a_silent_observer a_buffer a_world =
     (Returned, a_silent_observer, a_world\<lparr>trace := [Acquire, Release]\<rparr>) \<and>
   OnBufferedAmountChange a_throwing_application a_silent_observer 100 a_world =
     (Returned, a_silent_observer, a_world\<lparr>trace := [Acquire, Release]\<rparr>) \<and>
   filter is_call (delivered a_world (a_world\<lparr>trace := [Acquire, Release]\<rparr>)) = []"
proof -
  have s: "state_callback a_silent_observer = None"
    and m: "message_callback a_silent_observer = None"
    and b: "buffering_callback a_silent_observer = None"
    by (simp_all add: a_silent_observer_def)
  have t: "trace a_world = []"
    by (simp add: a_world_def)
  have h1: "OnStateChange a_throwing_application a_silent_observer a_world =
     (Returned, a_silent_observer, a_world\<lparr>trace := [Acquire, Release]\<rparr>)"
    by (simp add: OnStateChange_def lock_guard_def emit_def a_silent_observer_def t)
  have h2: "OnMessage a_throwing_application a_silent_observer a_buffer a_world =
     (Returned, a_silent_observer, a_world\<lparr>trace := [Acquire, Release]\<rparr>)"
    by (simp add: OnMessage_def lock_guard_def emit_def a_silent_observer_def t)
  have h3: "OnBufferedAmountChange a_throwing_application a_silent_observer 100 a_world =
     (Returned, a_silent_observer, a_world\<lparr>trace := [Acquire, Release]\<rparr>)"
    by (simp add: OnBufferedAmountChange_def lock_guard_def emit_def a_silent_observer_def t)
  note calls = unregistered_delivery_is_dropped [OF h1 h2 h3,
      THEN conjunct1, rule_format, OF s, THEN conjunct2, THEN conjunct2, THEN conjunct1]
  from s m b h1 h2 h3 calls show ?thesis by (simp only: simp_thms)
qed

subsection \<open>No error leaves an operation\<close>

lemma outcome_OnStateChange:
  "fst (OnStateChange app this w) =
     (case state_callback this of
        None \<Rightarrow> Returned
      | Some cb \<Rightarrow>
          noexcept
            (app (Call_state cb
               (api_int (apiStateFromRtcState (chan_state (channels w (data_channel this)))))
               (chan_id (channels w (data_channel this))))))"
  by (cases "state_callback this") (simp_all add: OnStateChange_empty OnStateChange_set)

lemma outcome_OnMessage:
  "fst (OnMessage app this buffer w) =
     (case message_callback this of
        None \<Rightarrow> Returned
      | Some cb \<Rightarrow>
          noexcept (app (Call_message cb (cow_data (data buffer)) (cow_size (data buffer)))))"
  by (cases "message_callback this") (simp_all add: OnMessage_empty OnMessage_set)

lemma outcome_OnBufferedAmountChange:
  "fst (OnBufferedAmountChange app this previous w) =
     (case buffering_callback this of
        None \<Rightarrow> Returned
      | Some cb \<Rightarrow>
          noexcept
            (app (Call_buffering cb previous
               (chan_buffered_amount (channels w (data_channel this))) 16777216)))"
  by (cases "buffering_callback this")
    (simp_all add: OnBufferedAmountChange_empty OnBufferedAmountChange_set)

text \<open>
  An operation returns whenever the callback it calls returns; a callback that throws
  meets the \<^verbatim>\<open>noexcept\<close> boundary, and the program ends there.
\<close>

lemma operations_return_when_callbacks_return:
  assumes "\<And>call. app call = Returned"
  shows "fst (OnStateChange app this w) = Returned"
    and "fst (OnMessage app this buffer w) = Returned"
    and "fst (OnBufferedAmountChange app this previous w) = Returned"
  by (simp_all add: outcome_OnStateChange outcome_OnMessage outcome_OnBufferedAmountChange
      assms split: option.split)

text \<open>
  Claim C6, as amended. Whatever the input, the slots and the behaviour of the
  callbacks, none of the three operations hands an error to its caller: the outcome is
  never an exception. The outcome is a normal return when the slot is empty, and
  otherwise it is the outcome of the one callback that is called, seen through
  \<^verbatim>\<open>noexcept\<close>: a normal return when the callback returns, the end of the program when
  the callback throws. In particular, with callbacks that return, every operation
  returns.
\<close>

theorem operations_return_unless_callback_fails:
  "fst (OnStateChange app this w) \<noteq> Raised \<and>
   fst (OnMessage app this buffer w) \<noteq> Raised \<and>
   fst (OnBufferedAmountChange app this previous w) \<noteq> Raised \<and>
   fst (OnStateChange app this w) =
     (case state_callback this of
        None \<Rightarrow> Returned
      | Some cb \<Rightarrow>
          noexcept
            (app (Call_state cb
               (api_int (apiStateFromRtcState (chan_state (channels w (data_channel this)))))
               (chan_id (channels w (data_channel this)))))) \<and>
   fst (OnMessage app this buffer w) =
     (case message_callback this of
        None \<Rightarrow> Returned
      | Some cb \<Rightarrow>
          noexcept (app (Call_message cb (cow_data (data buffer)) (cow_size (data buffer))))) \<and>
   fst (OnBufferedAmountChange app this previous w) =
     (case buffering_callback this of
        None \<Rightarrow> Returned
      | Some cb \<Rightarrow>
          noexcept
            (app (Call_buffering cb previous
               (chan_buffered_amount (channels w (data_channel this))) 16777216))) \<and>
   ((\<forall>call. app call = Returned) \<longrightarrow>
      fst (OnStateChange app this w) = Returned \<and>
      fst (OnMessage app this buffer w) = Returned \<and>
      fst (OnBufferedAmountChange app this previous w) = Returned) \<and>
   noexcept Returned = Returned \<and> noexcept Raised = Terminated \<and>
   noexcept Terminated = Terminated"
proof -
  have "fst (OnStateChange app this w) \<noteq> Raised"
    and "fst (OnMessage app this buffer w) \<noteq> Raised"
    and "fst (OnBufferedAmountChange app this previous w) \<noteq> Raised"
    by (simp_all add: outcome_OnStateChange outcome_OnMessage
        outcome_OnBufferedAmountChange noexcept_not_Raised split: option.split)
  moreover have "fst (OnStateChange app this w) = Returned \<and>
      fst (OnMessage app this buffer w) = Returned \<and>
      fst (OnBufferedAmountChange app this previous w) = Returned"
    if "\<forall>call. app call = Returned"
    using that operations_return_when_callbacks_return [of app] by simp
  ultimately show ?thesis
    using outcome_OnStateChange [of app this w] outcome_OnMessage [of app this buffer w]
      outcome_OnBufferedAmountChange [of app this previous w]
    by simp
qed

theorem operations_return_unless_callback_fails_witness:
  "(\<forall>call. a_quiet_application call = Returned) \<and>
   fst (OnStateChange a_quiet_application a_listening_observer a_world) = Returned \<and>
   fst (OnMessage a_quiet_application a_listening_observer a_buffer a_world) = Returned \<and>
   fst (OnBufferedAmountChange a_quiet_application a_listening_observer 100 a_world)
     = Returned"
proof -
  have q: "\<forall>call. a_quiet_application call = Returned"
    by (simp add: a_quiet_application_def)
  note returns = operations_return_unless_callback_fails [of a_quiet_application a_listening_observer
      a_world a_buffer 100, THEN conjunct2, THEN conjunct2, THEN conjunct2,
      THEN conjunct2, THEN conjunct2, THEN conjunct2, THEN conjunct1, THEN mp, OF q]
  from q returns show ?thesis by (simp only: simp_thms)
qed

text \<open>
  The claim as it was stated, that every operation completes for every configuration
  of callbacks, fails where a registered callback throws: none of the three operations
  returns.
\<close>

theorem throwing_callback_ends_the_program:
  "fst (OnStateChange a_throwing_application a_listening_observer a_world) = Terminated \<and>
   fst (OnStateChange a_throwing_application a_listening_observer a_world) \<noteq> Returned \<and>
   fst (OnMessage a_throwing_application a_listening_observer a_buffer a_world)
     = Terminated \<and>
   fst (OnMessage a_throwing_application a_listening_observer a_buffer a_world)
     \<noteq> Returned \<and>
   fst (OnBufferedAmountChange a_throwing_application a_listening_observer 100 a_world)
     = Terminated \<and>
   fst (OnBufferedAmountChange a_throwing_application a_listening_observer 100 a_world)
     \<noteq> Returned"
  by (simp add: outcome_OnStateChange outcome_OnMessage outcome_OnBufferedAmountChange
      a_throwing_application_def a_listening_observer_def)

subsection \<open>What a delivery leaves alone\<close>

text \<open>
  Claim C8. Every delivery, with or without a listener, leaves the observer's four
  fields as they were and leaves the channels (and the memory) of the world as they
  were: the channel is asked, never written. (What the code of a callback does once
  it is called is the application's doing and no step of the operations.)
\<close>

theorem deliveries_leave_observer_and_channel:
  "fst (snd (OnStateChange app this w)) = this \<and>
   channels (snd (snd (OnStateChange app this w))) = channels w \<and>
   memory (snd (snd (OnStateChange app this w))) = memory w \<and>
   fst (snd (OnMessage app this buffer w)) = this \<and>
   channels (snd (snd (OnMessage app this buffer w))) = channels w \<and>
   memory (snd (snd (OnMessage app this buffer w))) = memory w \<and>
   fst (snd (OnBufferedAmountChange app this previous w)) = this \<and>
   channels (snd (snd (OnBufferedAmountChange app this previous w))) = channels w \<and>
   memory (snd (snd (OnBufferedAmountChange app this previous w))) = memory w"
proof -
  have s: "fst (snd (OnStateChange app this w)) = this \<and>
      channels (snd (snd (OnStateChange app this w))) = channels w \<and>
      memory (snd (snd (OnStateChange app this w))) = memory w"
    by (cases "state_callback this") (simp_all add: OnStateChange_empty OnStateChange_set)
  have m: "fst (snd (OnMessage app this buffer w)) = this \<and>
      channels (snd (snd (OnMessage app this buffer w))) = channels w \<and>
      memory (snd (snd (OnMessage app this buffer w))) = memory w"
    by (cases "message_callback this") (simp_all add: OnMessage_empty OnMessage_set)
  have b: "fst (snd (OnBufferedAmountChange app this previous w)) = this \<and>
      channels (snd (snd (OnBufferedAmountChange app this previous w))) = channels w \<and>
      memory (snd (snd (OnBufferedAmountChange app this previous w))) = memory w"
    by (cases "buffering_callback this")
      (simp_all add: OnBufferedAmountChange_empty OnBufferedAmountChange_set)
  from s m b show ?thesis by blast
qed

subsection \<open>Construction\<close>

text \<open>
  Claim C9. The constructor returns an observer that holds the reference it was given and
  three empty slots, and leaves the world as it found it: it asks the channel nothing
  and calls no callback.
\<close>

theorem constructor_only_stores_reference:
  "fst (DataChannelObserver_ctor channel w) = Returned \<and>
   data_channel (fst (snd (DataChannelObserver_ctor channel w))) = channel \<and>
   state_callback (fst (snd (DataChannelObserver_ctor channel w))) = None \<and>
   message_callback (fst (snd (DataChannelObserver_ctor channel w))) = None \<and>
   buffering_callback (fst (snd (DataChannelObserver_ctor channel w))) = None \<and>
   snd (snd (DataChannelObserver_ctor channel w)) = w \<and>
   delivered w (snd (snd (DataChannelObserver_ctor channel w))) = []"
  by (simp add: DataChannelObserver_ctor_def delivered_def)

subsection \<open>The mutex\<close>

text \<open>
  An operation that returns has held the observer's mutex from its first step to its
  last: its events are an \<open>Acquire\<close>, the body, and a \<open>Release\<close>, and the body takes and
  releases nothing.
\<close>

lemma released_Returned: "noexcept r = Returned \<Longrightarrow> released r = [Release]"
  by (cases r) simp_all

lemma operations_hold_the_mutex:
  shows "fst (OnStateChange app this w) = Returned \<Longrightarrow>
         \<exists>body. delivered w (snd (snd (OnStateChange app this w))) = Acquire # body @ [Release]
           \<and> Acquire \<notin> set body \<and> Release \<notin> set body"
    and "fst (OnMessage app this buffer w) = Returned \<Longrightarrow>
         \<exists>body. delivered w (snd (snd (OnMessage app this buffer w))) = Acquire # body @ [Release]
           \<and> Acquire \<notin> set body \<and> Release \<notin> set body"
    and "fst (OnBufferedAmountChange app this previous w) = Returned \<Longrightarrow>
         \<exists>body. delivered w (snd (snd (OnBufferedAmountChange app this previous w)))
             = Acquire # body @ [Release]
           \<and> Acquire \<notin> set body \<and> Release \<notin> set body"
proof -
  show "\<exists>body. delivered w (snd (snd (OnStateChange app this w))) = Acquire # body @ [Release]
           \<and> Acquire \<notin> set body \<and> Release \<notin> set body"
    if "fst (OnStateChange app this w) = Returned"
    using that
    by (cases "state_callback this")
      (simp_all add: OnStateChange_empty OnStateChange_set delivered_def released_Returned)
  show "\<exists>body. delivered w (snd (snd (OnMessage app this buffer w))) = Acquire # body @ [Release]
           \<and> Acquire \<notin> set body \<and> Release \<notin> set body"
    if "fst (OnMessage app this buffer w) = Returned"
    using that
    by (cases "message_callback this")
      (simp_all add: OnMessage_empty OnMessage_set delivered_def released_Returned)
  show "\<exists>body. delivered w (snd (snd (OnBufferedAmountChange app this previous w)))
             = Acquire # body @ [Release]
           \<and> Acquire \<notin> set body \<and> Release \<notin> set body"
    if "fst (OnBufferedAmountChange app this previous w) = Returned"
    using that
    by (cases "buffering_callback this")
      (simp_all add: OnBufferedAmountChange_empty OnBufferedAmountChange_set delivered_def
        released_Returned)
qed

subsection \<open>Threads and the mutex\<close>

lemma proj_Nil: "proj t [] = []"
  by (simp add: proj_def)















text \<open>
  A schedule in which a registration begins in the middle of a delivery is not one the
  mutex allows, and it is not exclusive.
\<close>

lemma overlapping_schedule_rejected:
  "\<not> mutex_ok None an_overlapping_schedule \<and> \<not> exclusive None an_overlapping_schedule"
  by (simp add: an_overlapping_schedule_def)

subsection \<open>No query without a listener\<close>

text \<open>
  Claim C10. An operation whose slot is empty returns without asking the channel
  anything: \<open>OnStateChange\<close> asks neither for the state nor for the id, and
  \<open>OnBufferedAmountChange\<close> does not ask for the buffered amount. \<open>OnMessage\<close> never
  asks the channel anything.
\<close>

theorem no_query_without_callback:
  "(state_callback this = None \<longrightarrow>
      fst (OnStateChange app this w) = Returned \<and>
      filter is_query (delivered w (snd (snd (OnStateChange app this w)))) = []) \<and>
   (buffering_callback this = None \<longrightarrow>
      fst (OnBufferedAmountChange app this previous w) = Returned \<and>
      filter is_query
        (delivered w (snd (snd (OnBufferedAmountChange app this previous w)))) = []) \<and>
   filter is_query (delivered w (snd (snd (OnMessage app this buffer w)))) = []"
proof -
  have "filter is_query (delivered w (snd (snd (OnMessage app this buffer w)))) = []"
    by (cases "message_callback this")
      (simp_all add: OnMessage_empty OnMessage_set delivered_def filter_released)
  then show ?thesis
    by (simp add: OnStateChange_empty OnBufferedAmountChange_empty delivered_def)
qed

theorem no_query_without_callback_witness:
  "state_callback a_silent_observer = None \<and>
   buffering_callback a_silent_observer = None \<and>
   fst (OnStateChange a_quiet_application a_silent_observer a_world) = Returned \<and>
   filter is_query
     (delivered a_world
        (snd (snd (OnStateChange a_quiet_application a_silent_observer a_world)))) = [] \<and>
   fst (OnBufferedAmountChange a_quiet_application a_silent_observer 100 a_world)
     = Returned \<and>
   filter is_query
     (delivered a_world
        (snd (snd (OnBufferedAmountChange a_quiet_application a_silent_observer 100
           a_world)))) = []"
proof -
  have s: "state_callback a_silent_observer = None"
    and b: "buffering_callback a_silent_observer = None"
    by (simp_all add: a_silent_observer_def)
  note all = no_query_without_callback [of a_silent_observer a_quiet_application a_world
      100 a_buffer]
  note st = all [THEN conjunct1, rule_format, OF s]
  note bu = all [THEN conjunct2, THEN conjunct1, rule_format, OF b]
  from s b st bu show ?thesis by (simp only: simp_thms)
qed

end
